theory Spec2Isabelle
  imports Main "HOL-Library.AList"
begin

section \<open>Data model of main.go\<close>

text \<open>
  Go strings are byte sequences; \<open>string\<close> (a \<open>char list\<close>, one \<open>char\<close> per byte) models
  them, so \<open>length\<close> is Go's \<open>len\<close> and a slice expression cuts bytes.
\<close>

text \<open>\<open>type Contract struct { Content string }\<close>\<close>

record Contract =
  Content :: string

text \<open>\<open>type Optimizer struct { Enabled bool; Runs int }\<close>\<close>

record Optimizer =
  Enabled :: bool
  Runs :: int

text \<open>
  A value held in an \<open>interface{}\<close> after decoding JSON into it: Go stores
  \<open>map[string]interface{}\<close>, \<open>[]interface{}\<close>, \<open>float64\<close>, \<open>string\<close>, \<open>bool\<close> or \<open>nil\<close>.
  The \<open>float64\<close> is represented by the number literal it was read from.
\<close>

datatype json =
    JNull
  | JBool bool
  | JNumber string
  | JString string
  | JArray "json list"
  | JObject "(string \<times> json) list"

text \<open>
  \<open>type Settings struct { Optimizer *Optimizer; OutputSelection OutputSelection;
  Libraries Libraries }\<close> with \<open>type OutputSelection map[string]map[string][]string\<close> and
  \<open>type Libraries interface{}\<close>. A nil pointer and a nil interface are \<open>None\<close>; a nil map
  is the empty map and a nil slice the empty list (the program only reads them).
\<close>

record Settings =
  Optimizer :: "Optimizer option"
  OutputSelection :: "string \<rightharpoonup> (string \<rightharpoonup> string list)"
  Libraries :: "json option"

text \<open>\<open>type Sources map[string]*Contract\<close>: a path maps to a pointer, which may be nil.\<close>

type_synonym Sources = "string \<rightharpoonup> Contract option"

text \<open>\<open>type SourceCode struct { Language string; Sources Sources; Settings Settings }\<close>\<close>

record SourceCode =
  Language :: string
  Sources :: Sources
  Settings :: Settings

text \<open>\<open>type RawCode struct\<close>: thirteen strings read from the explorer and the flag \<open>IsOneSource\<close>.\<close>

record RawCode =
  SourceCode :: string
  Abi :: string
  ContractName :: string
  CompilerVersion :: string
  OptimizationUsed :: string
  Runs :: string
  ConstructorArguments :: string
  EVMVersion :: string
  Library :: string
  LicenseType :: string
  Proxy :: string
  Implementation :: string
  SwarmSource :: string
  IsOneSource :: bool

text \<open>\<open>type Response struct { Status string; Message string; Codes []*RawCode }\<close>: the slice holds
  pointers, so an element may be nil (\<open>None\<close>).\<close>

record Response =
  Status :: string
  Message :: string
  Codes :: "RawCode option list"

text \<open>
  Go's \<open>error\<close> values. \<open>Errorf text\<close> is what \<open>fmt.Errorf\<close> builds, with its formatted text;
  the others stand for the errors of \<open>net/http\<close>, \<open>io\<close> and \<open>encoding/json\<close>, which the
  program only compares with nil and hands on.
\<close>

datatype error =
    Errorf string
  | NetError
  | ReadError
  | SyntaxError
  | UnmarshalTypeError

text \<open>A call either returns or ends the program with a run-time panic.\<close>

datatype panic = NilDereference | SliceBoundsOutOfRange | IndexOutOfRange

datatype 'a outcome = Panic panic | Return 'a

text \<open>The zero values \<open>Settings{}\<close>, \<open>SourceCode{}\<close> and \<open>RawCode{}\<close> of the composite literals.\<close>

definition zero_Settings :: Settings where
  "zero_Settings = \<lparr>Optimizer = None, OutputSelection = Map.empty, Libraries = None\<rparr>"

definition zero_SourceCode :: SourceCode where
  "zero_SourceCode = \<lparr>Language = [], Sources = Map.empty, Settings = zero_Settings\<rparr>"

definition zero_RawCode :: RawCode where
  "zero_RawCode = \<lparr>SourceCode = [], Abi = [], ContractName = [], CompilerVersion = [],
     OptimizationUsed = [], Runs = [], ConstructorArguments = [], EVMVersion = [],
     Library = [], LicenseType = [], Proxy = [], Implementation = [], SwarmSource = [],
     IsOneSource = False\<rparr>"

definition zero_Response :: Response where
  "zero_Response = \<lparr>Status = [], Message = [], Codes = []\<rparr>"

section \<open>The functions of main.go\<close>

text \<open>
  The slice expression \<open>s[low:high]\<close> on a string: Go checks \<open>0 \<le> low \<le> high \<le> len(s)\<close> and
  panics otherwise. The bounds are \<open>int\<close>s, so \<open>len(s) - 1\<close> is \<open>-1\<close> for the empty string.
\<close>

definition slice :: "string \<Rightarrow> int \<Rightarrow> int \<Rightarrow> string outcome" where
  "slice s low high =
     (if 0 \<le> low \<and> low \<le> high \<and> high \<le> int (length s)
      then Return (take (nat (high - low)) (drop (nat low) s))
      else Panic SliceBoundsOutOfRange)"

text \<open>
  \<open>json.Unmarshal(data, sourceCode)\<close> with \<open>sourceCode := &SourceCode{}\<close> belongs to Go's
  standard library, not to this repository: it is a parameter of the model, giving for the
  bytes \<open>data\<close> the struct as the call leaves it and the error it returns.
\<close>

type_synonym unmarshal = "string \<Rightarrow> SourceCode \<times> error option"

text \<open>
  The bundle both early returns build:
  \<open>[]*SourceCode{{Sources: Sources{"main.sol": &Contract{Content: rawCodes[0].SourceCode}}}}, nil\<close>.
  \<open>rawCodes[0]\<close> panics on an empty slice, and reading a field through a nil pointer panics.
\<close>

definition main_sol :: "string \<Rightarrow> SourceCode" where
  "main_sol content =
     zero_SourceCode\<lparr>Sources := [''main.sol'' \<mapsto> Some \<lparr>Content = content\<rparr>]\<rparr>"

definition one_main_sol :: "RawCode option list \<Rightarrow> (SourceCode list \<times> error option) outcome" where
  "one_main_sol rawCodes =
     (case rawCodes of
        [] \<Rightarrow> Panic IndexOutOfRange
      | None # _ \<Rightarrow> Panic NilDereference
      | Some r0 # _ \<Rightarrow> Return ([main_sol (SourceCode r0)], None))"

text \<open>The argument of the inner decode: \<open>rawCode.SourceCode[1:len(rawCode.SourceCode)-1]\<close>.\<close>

definition inner :: "RawCode \<Rightarrow> string outcome" where
  "inner rawCode = slice (SourceCode rawCode) 1 (int (length (SourceCode rawCode)) - 1)"

text \<open>
  The \<open>for _, rawCode := range rawCodes\<close> loop of \<open>parseContractCode\<close>: \<open>todo\<close> is what is left
  of the range, \<open>sourceCodes\<close> the slice appended to so far.
\<close>

fun parse_loop ::
  "unmarshal \<Rightarrow> RawCode option list \<Rightarrow> RawCode option list \<Rightarrow> SourceCode list
    \<Rightarrow> (SourceCode list \<times> error option) outcome" where
  "parse_loop Unmarshal rawCodes [] sourceCodes = Return (sourceCodes, None)"
| "parse_loop Unmarshal rawCodes (None # todo) sourceCodes = Panic NilDereference"
| "parse_loop Unmarshal rawCodes (Some rawCode # todo) sourceCodes =
     (case inner rawCode of
        Panic p \<Rightarrow> Panic p
      | Return data \<Rightarrow>
          (case Unmarshal data of
             (sourceCode, Some err) \<Rightarrow> one_main_sol rawCodes
           | (sourceCode, None) \<Rightarrow>
               parse_loop Unmarshal rawCodes todo (sourceCodes @ [sourceCode])))"

text \<open>\<open>func parseContractCode(rawCodes []*RawCode) ([]*SourceCode, error)\<close>\<close>

definition parseContractCode ::
  "unmarshal \<Rightarrow> RawCode option list \<Rightarrow> (SourceCode list \<times> error option) outcome" where
  "parseContractCode Unmarshal rawCodes =
     (case rawCodes of
        [None] \<Rightarrow> Panic NilDereference
      | [Some r0] \<Rightarrow>
          (if IsOneSource r0 then one_main_sol rawCodes
           else parse_loop Unmarshal rawCodes rawCodes [])
      | _ \<Rightarrow> parse_loop Unmarshal rawCodes rawCodes [])"

text \<open>
  Words for the statements below. \<open>single_flat_source\<close>: the test
  \<open>len(rawCodes) == 1 && rawCodes[0].IsOneSource\<close> holds. \<open>decodes_to\<close>: the inner decode of the
  entry succeeds and leaves the given document. \<open>decode_fails\<close>: the inner decode of the entry
  returns an error. Neither holds of an entry too short to be sliced.
\<close>

definition single_flat_source :: "RawCode option list \<Rightarrow> bool" where
  "single_flat_source rawCodes = (case rawCodes of [Some r0] \<Rightarrow> IsOneSource r0 | _ \<Rightarrow> False)"

definition decodes_to :: "unmarshal \<Rightarrow> RawCode \<Rightarrow> SourceCode \<Rightarrow> bool" where
  "decodes_to Unmarshal rawCode sourceCode =
     (case inner rawCode of
        Return data \<Rightarrow> Unmarshal data = (sourceCode, None)
      | Panic p \<Rightarrow> False)"

definition decode_fails :: "unmarshal \<Rightarrow> RawCode \<Rightarrow> bool" where
  "decode_fails Unmarshal rawCode =
     (case inner rawCode of
        Return data \<Rightarrow> snd (Unmarshal data) \<noteq> None
      | Panic p \<Rightarrow> False)"

text \<open>\<open>func getContractURL\<close>: \<open>fmt.Sprintf\<close> with three \<open>%s\<close> verbs on strings.\<close>

definition getContractURL :: "string \<Rightarrow> string \<Rightarrow> string \<Rightarrow> string" where
  "getContractURL endpoint address apikey =
     endpoint @ ''/api?module=contract&action=getsourcecode&address='' @ address
       @ ''&apikey='' @ apikey"

text \<open>
  \<open>func getRawContractCode\<close>. The network and the decoder are parameters: \<open>Get url\<close> is what
  \<open>http.DefaultClient.Get(url)\<close> followed by \<open>io.ReadAll(resp.Body)\<close> gives (the error of the
  request, or the error of the read, or the bytes of the body), and \<open>Decode bs\<close> is
  \<open>json.NewDecoder(bytes.NewBuffer(bs)).Decode(&Response{})\<close>: the struct as the call leaves
  it and the error it returns.
\<close>

type_synonym http_get = "string \<Rightarrow> error + (error + string)"

type_synonym decode = "string \<Rightarrow> Response \<times> error option"

definition getRawContractCode ::
  "http_get \<Rightarrow> decode \<Rightarrow> string \<Rightarrow> string \<Rightarrow> string \<Rightarrow> RawCode option list \<times> error option" where
  "getRawContractCode Get Decode endpoint address apiKey =
     (case Get (getContractURL endpoint address apiKey) of
        Inl err \<Rightarrow> ([], Some err)
      | Inr (Inl err) \<Rightarrow> ([], Some err)
      | Inr (Inr bs) \<Rightarrow>
          (case Decode bs of
             (contractCodeResponse, Some err) \<Rightarrow>
               ([Some (zero_RawCode\<lparr>SourceCode := bs, IsOneSource := True\<rparr>)], None)
           | (contractCodeResponse, None) \<Rightarrow>
               (if Status contractCodeResponse \<noteq> ''1''
                then ([], Some (Errorf (''bad status: '' @ Status contractCodeResponse
                        @ '', message: '' @ Status contractCodeResponse)))
                else (Codes contractCodeResponse, None))))"

section \<open>A reference model of encoding/json\<close>

text \<open>
  The theorems below hold for every decoder. To run the functions on concrete response
  bodies, this section models the two calls the program makes,
  \<open>json.Unmarshal(data, &SourceCode{})\<close> and \<open>json.NewDecoder(..).Decode(&Response{})\<close>, the way
  \<open>encoding/json\<close> works: a scanner over the bytes (\<open>scanner.go\<close>), then a decoder directed by
  the Go type of the target (\<open>decode.go\<close>). \<open>int\<close> is 64 bits wide. Two things are idealised:
  \<open>strconv.ParseFloat\<close> is taken to round correctly on every literal, and a slice that is
  decoded a second time (a repeated key) does not see elements an earlier decode cut off.
\<close>

subsection \<open>The scanner\<close>

definition byte :: "char \<Rightarrow> nat" where
  "byte c = of_char c"

definition chr :: "nat \<Rightarrow> char" where
  "chr n = char_of n"

definition isSpace :: "char \<Rightarrow> bool" where
  "isSpace c = (c = CHR '' '' \<or> c = CHR 0x09 \<or> c = CHR 0x0D \<or> c = CHR 0x0A)"

definition isDigit :: "char \<Rightarrow> bool" where
  "isDigit c = (48 \<le> byte c \<and> byte c \<le> 57)"

definition isHex :: "char \<Rightarrow> bool" where
  "isHex c =
     (isDigit c \<or> (97 \<le> byte c \<and> byte c \<le> 102) \<or> (65 \<le> byte c \<and> byte c \<le> 70))"

definition skip_space :: "string \<Rightarrow> string" where
  "skip_space s = dropWhile isSpace s"

text \<open>
  The bytes of a string literal after its opening quote, up to the closing quote: a
  backslash is followed by one of \<open>b f n r t \ / "\<close> or by \<open>u\<close> and four hex digits, and no
  byte below \<open>0x20\<close> stands unescaped. The result is the raw text and what follows the
  closing quote.
\<close>

fun scan_string :: "string \<Rightarrow> (string \<times> string) option" where
  "scan_string [] = None"
| "scan_string (c # cs) =
     (if c = CHR 0x22 then Some ([], cs)
      else if c = CHR 0x5C then
        (case cs of
           [] \<Rightarrow> None
         | e # cs' \<Rightarrow>
             if e \<in> set ''bfnrt/'' \<or> e = CHR 0x5C \<or> e = CHR 0x22 then
               map_option (\<lambda>(raw, rest). (c # e # raw, rest)) (scan_string cs')
             else if e = CHR ''u'' \<and> 4 \<le> length cs' \<and> list_all isHex (take 4 cs') then
               map_option (\<lambda>(raw, rest). (c # e # take 4 cs' @ raw, rest))
                 (scan_string (drop 4 cs'))
             else None)
      else if byte c < 32 then None
      else map_option (\<lambda>(raw, rest). (c # raw, rest)) (scan_string cs))"

text \<open>A number literal: \<open>-? (0 | [1-9][0-9]*) (. [0-9]+)? ([eE] [+-]? [0-9]+)?\<close>, read greedily.\<close>

definition scan_digits :: "string \<Rightarrow> (string \<times> string) option" where
  "scan_digits s =
     (if takeWhile isDigit s = [] then None
      else Some (takeWhile isDigit s, dropWhile isDigit s))"

definition scan_int :: "string \<Rightarrow> (string \<times> string) option" where
  "scan_int s =
     (case s of
        [] \<Rightarrow> None
      | d # r \<Rightarrow>
          if d = CHR ''0'' then Some ([d], r)
          else if isDigit d then Some (d # takeWhile isDigit r, dropWhile isDigit r)
          else None)"

definition scan_frac :: "string \<Rightarrow> (string \<times> string) option" where
  "scan_frac s =
     (case s of
        [] \<Rightarrow> Some ([], s)
      | c # r \<Rightarrow>
          if c = CHR ''.'' then map_option (\<lambda>(ds, rest). (c # ds, rest)) (scan_digits r)
          else Some ([], s))"

definition scan_exp :: "string \<Rightarrow> (string \<times> string) option" where
  "scan_exp s =
     (case s of
        [] \<Rightarrow> Some ([], s)
      | c # r \<Rightarrow>
          if c = CHR ''e'' \<or> c = CHR ''E'' then
            (case r of
               [] \<Rightarrow> None
             | g # r' \<Rightarrow>
                 if g = CHR ''+'' \<or> g = CHR ''-''
                 then map_option (\<lambda>(ds, rest). (c # g # ds, rest)) (scan_digits r')
                 else map_option (\<lambda>(ds, rest). (c # ds, rest)) (scan_digits r))
          else Some ([], s))"

definition scan_number :: "string \<Rightarrow> (string \<times> string) option" where
  "scan_number s =
     (let (sign, s0) =
            (case s of [] \<Rightarrow> ([], s) | c # r \<Rightarrow> if c = CHR ''-'' then ([c], r) else ([], s))
      in case scan_int s0 of
           None \<Rightarrow> None
         | Some (ip, s1) \<Rightarrow>
             (case scan_frac s1 of
                None \<Rightarrow> None
              | Some (fp, s2) \<Rightarrow>
                  (case scan_exp s2 of
                     None \<Rightarrow> None
                   | Some (ep, s3) \<Rightarrow> Some (sign @ ip @ fp @ ep, s3))))"

definition scan_literal :: "string \<Rightarrow> (json \<times> string) option" where
  "scan_literal s =
     (if take 4 s = ''true'' then Some (JBool True, drop 4 s)
      else if take 5 s = ''false'' then Some (JBool False, drop 5 s)
      else if take 4 s = ''null'' then Some (JNull, drop 4 s)
      else None)"

subsection \<open>Unquoting a string literal\<close>

definition hexval :: "char \<Rightarrow> nat" where
  "hexval c =
     (if isDigit c then byte c - 48
      else if 97 \<le> byte c then byte c - 87
      else byte c - 55)"

text \<open>\<open>getu4\<close>: the code unit of a \<open>\uXXXX\<close> escape at the start of \<open>s\<close>.\<close>

definition getu4 :: "string \<Rightarrow> nat option" where
  "getu4 s =
     (case s of
        b # u # h1 # h2 # h3 # h4 # _ \<Rightarrow>
          if b = CHR 0x5C \<and> u = CHR ''u'' \<and> isHex h1 \<and> isHex h2 \<and> isHex h3 \<and> isHex h4
          then Some (((hexval h1 * 16 + hexval h2) * 16 + hexval h3) * 16 + hexval h4)
          else None
      | _ \<Rightarrow> None)"

definition RuneError :: nat where
  "RuneError = 0xFFFD"

text \<open>\<open>utf8.EncodeRune\<close>: the UTF-8 bytes of a code point; a surrogate or a value past
  \<open>U+10FFFF\<close> is written as \<open>U+FFFD\<close>.\<close>

definition EncodeRune :: "nat \<Rightarrow> string" where
  "EncodeRune r =
     (if r < 0x80 then [chr r]
      else if r < 0x800 then [chr (0xC0 + r div 64), chr (0x80 + r mod 64)]
      else if 0x10FFFF < r \<or> (0xD800 \<le> r \<and> r < 0xE000) then [chr 0xEF, chr 0xBF, chr 0xBD]
      else if r < 0x10000 then
        [chr (0xE0 + r div 4096), chr (0x80 + r div 64 mod 64), chr (0x80 + r mod 64)]
      else
        [chr (0xF0 + r div 262144), chr (0x80 + r div 4096 mod 64),
         chr (0x80 + r div 64 mod 64), chr (0x80 + r mod 64)])"

definition cont :: "nat \<Rightarrow> nat \<Rightarrow> string \<Rightarrow> nat \<Rightarrow> bool" where
  "cont lo hi s i = (i < length s \<and> lo \<le> byte (s ! i) \<and> byte (s ! i) \<le> hi)"

text \<open>The width \<open>utf8.DecodeRune\<close> finds for a well-formed sequence at the start of \<open>s\<close>;
  \<open>0\<close> for a malformed one, which it reads as \<open>U+FFFD\<close> of width one.\<close>

definition rune_size :: "string \<Rightarrow> nat" where
  "rune_size s =
     (case s of
        [] \<Rightarrow> 0
      | c # _ \<Rightarrow>
          let b = byte c in
          if b < 0x80 then 1
          else if 0xC2 \<le> b \<and> b \<le> 0xDF then (if cont 0x80 0xBF s 1 then 2 else 0)
          else if 0xE0 \<le> b \<and> b \<le> 0xEF then
            (if cont (if b = 0xE0 then 0xA0 else 0x80) (if b = 0xED then 0x9F else 0xBF) s 1
                \<and> cont 0x80 0xBF s 2 then 3 else 0)
          else if 0xF0 \<le> b \<and> b \<le> 0xF4 then
            (if cont (if b = 0xF0 then 0x90 else 0x80) (if b = 0xF4 then 0x8F else 0xBF) s 1
                \<and> cont 0x80 0xBF s 2 \<and> cont 0x80 0xBF s 3 then 4 else 0)
          else 0)"

definition escape :: "char \<Rightarrow> char" where
  "escape e =
     (if e = CHR ''b'' then CHR 0x08
      else if e = CHR ''f'' then CHR 0x0C
      else if e = CHR ''n'' then CHR 0x0A
      else if e = CHR ''r'' then CHR 0x0D
      else if e = CHR ''t'' then CHR 0x09
      else e)"

text \<open>
  \<open>unquoteBytes\<close> on the raw text of a literal the scanner accepted: escapes are replaced,
  a pair of \<open>\u\<close> surrogates becomes one code point, a lone surrogate and every malformed
  UTF-8 byte become \<open>U+FFFD\<close>.
\<close>

fun unquote :: "string \<Rightarrow> string" where
  "unquote [] = []"
| "unquote (c # cs) =
     (if c = CHR 0x5C then
        (case cs of
           [] \<Rightarrow> []
         | e # cs' \<Rightarrow>
             if e = CHR ''u'' then
               (case getu4 (c # cs) of
                  None \<Rightarrow> []
                | Some rr \<Rightarrow>
                    if 0xD800 \<le> rr \<and> rr < 0xE000 then
                      (case getu4 (drop 4 cs') of
                         None \<Rightarrow> EncodeRune RuneError @ unquote (drop 4 cs')
                       | Some rr1 \<Rightarrow>
                           if rr < 0xDC00 \<and> 0xDC00 \<le> rr1 \<and> rr1 < 0xE000
                           then EncodeRune ((rr - 0xD800) * 1024 + (rr1 - 0xDC00) + 0x10000)
                                  @ unquote (drop 10 cs')
                           else EncodeRune RuneError @ unquote (drop 4 cs'))
                    else EncodeRune rr @ unquote (drop 4 cs'))
             else escape e # unquote cs')
      else if rune_size (c # cs) = 0 then EncodeRune RuneError @ unquote cs
      else take (rune_size (c # cs)) (c # cs) @ unquote (drop (rune_size (c # cs) - 1) cs))"

subsection \<open>Values\<close>

text \<open>
  The scanner allows at most \<open>maxNestingDepth\<close> open arrays and objects. \<open>parse_value depth s\<close>
  reads one value at the start of \<open>s\<close>, after white space, and returns it with the bytes
  that follow it; \<open>parse_elems\<close> and \<open>parse_members\<close> read what follows \<open>[\<close> and \<open>{\<close> when
  that is not the closing bracket. The tests \<open>length rest < length s\<close> make the recursion
  well-founded.
\<close>

definition maxNestingDepth :: nat where
  "maxNestingDepth = 10000"

lemma skip_space_Cons: "skip_space s = c # r \<Longrightarrow> length r < length s"
  using length_dropWhile_le [of isSpace s] by (simp add: skip_space_def)

lemma scan_string_shorter: "scan_string s = Some (raw, rest) \<Longrightarrow> length rest < length s"
proof (induction s arbitrary: raw rest rule: scan_string.induct)
  case 1
  then show ?case by simp
next
  case (2 c cs)
  then show ?case
    by (fastforce split: if_splits list.splits)
qed

function parse_value :: "nat \<Rightarrow> string \<Rightarrow> (json \<times> string) option"
  and parse_elems :: "nat \<Rightarrow> string \<Rightarrow> (json list \<times> string) option"
  and parse_members :: "nat \<Rightarrow> string \<Rightarrow> ((string \<times> json) list \<times> string) option"
where
  "parse_value depth s =
     (case skip_space s of
        [] \<Rightarrow> None
      | c # cs \<Rightarrow>
          if c = CHR ''{'' then
            (if maxNestingDepth \<le> depth then None
             else case skip_space cs of
                    [] \<Rightarrow> None
                  | k # r \<Rightarrow>
                      if k = CHR ''}'' then Some (JObject [], r)
                      else map_option (\<lambda>(ms, rest). (JObject ms, rest))
                             (parse_members (Suc depth) cs))
          else if c = CHR ''['' then
            (if maxNestingDepth \<le> depth then None
             else case skip_space cs of
                    [] \<Rightarrow> None
                  | k # r \<Rightarrow>
                      if k = CHR '']'' then Some (JArray [], r)
                      else map_option (\<lambda>(vs, rest). (JArray vs, rest))
                             (parse_elems (Suc depth) cs))
          else if c = CHR 0x22 then
            map_option (\<lambda>(raw, rest). (JString (unquote raw), rest)) (scan_string cs)
          else if c = CHR ''-'' \<or> isDigit c then
            map_option (\<lambda>(lit, rest). (JNumber lit, rest)) (scan_number (c # cs))
          else scan_literal (c # cs))"
| "parse_elems depth s =
     (case parse_value depth s of
        None \<Rightarrow> None
      | Some (v, rest) \<Rightarrow>
          if length rest < length s then
            (case skip_space rest of
               [] \<Rightarrow> None
             | c # cs \<Rightarrow>
                 if c = CHR '','' then map_option (\<lambda>(vs, r). (v # vs, r)) (parse_elems depth cs)
                 else if c = CHR '']'' then Some ([v], cs)
                 else None)
          else None)"
| "parse_members depth s =
     (case skip_space s of
        [] \<Rightarrow> None
      | q # s1 \<Rightarrow>
          if q = CHR 0x22 then
            (case scan_string s1 of
               None \<Rightarrow> None
             | Some (key, s2) \<Rightarrow>
                 (case skip_space s2 of
                    [] \<Rightarrow> None
                  | colon # s3 \<Rightarrow>
                      if colon = CHR '':'' then
                        (case parse_value depth s3 of
                           None \<Rightarrow> None
                         | Some (v, rest) \<Rightarrow>
                             if length rest < length s3 then
                               (case skip_space rest of
                                  [] \<Rightarrow> None
                                | c # cs \<Rightarrow>
                                    if c = CHR '','' then
                                      map_option (\<lambda>(ms, r). ((unquote key, v) # ms, r))
                                        (parse_members depth cs)
                                    else if c = CHR ''}'' then Some ([(unquote key, v)], cs)
                                    else None)
                             else None)
                      else None))
          else None)"
  by pat_completeness auto
termination
  by (relation "measure (\<lambda>x. case x of
        Inl (d, s) \<Rightarrow> 2 * length s
      | Inr (Inl (d, s)) \<Rightarrow> 2 * length s + 1
      | Inr (Inr (d, s)) \<Rightarrow> 2 * length s + 1)")
    (auto dest!: skip_space_Cons scan_string_shorter)

declare parse_value.simps [simp del] parse_elems.simps [simp del] parse_members.simps [simp del]

subsection \<open>Numbers and field names\<close>

fun digits_value :: "string \<Rightarrow> int \<Rightarrow> int" where
  "digits_value [] acc = acc"
| "digits_value (d # ds) acc = digits_value ds (10 * acc + (int (byte d) - 48))"

text \<open>\<open>strconv.ParseInt(lit, 10, 64)\<close> on a number literal: a sign and digits only, within
  the range of \<open>int64\<close>.\<close>

definition ParseInt64 :: "string \<Rightarrow> int option" where
  "ParseInt64 lit =
     (let neg = (take 1 lit = ''-'');
          ds = (if neg then drop 1 lit else lit);
          n = digits_value ds 0
      in if ds = [] \<or> \<not> list_all isDigit ds then None
         else if neg then (if n \<le> 2 ^ 63 then Some (- n) else None)
         else (if n < 2 ^ 63 then Some n else None))"

text \<open>
  \<open>strconv.ParseFloat(lit, 64)\<close> fails on a number literal only when the value rounds to
  an infinity, that is when its magnitude is at least \<open>2^1024 - 2^970\<close>, half a unit in the
  last place above the largest \<open>float64\<close>.
\<close>

definition float64_overflows :: "string \<Rightarrow> bool" where
  "float64_overflows lit =
     (let s0 = (if take 1 lit = ''-'' then drop 1 lit else lit);
          ip = takeWhile isDigit s0;
          s1 = dropWhile isDigit s0;
          fp = (if take 1 s1 = ''.'' then takeWhile isDigit (drop 1 s1) else []);
          s2 = (if take 1 s1 = ''.'' then dropWhile isDigit (drop 1 s1) else s1);
          s3 = drop 1 s2;
          ed = (if take 1 s3 = ''-'' \<or> take 1 s3 = ''+'' then drop 1 s3 else s3);
          e = (if take 1 s3 = ''-'' then - digits_value ed 0 else digits_value ed 0)
                - int (length fp);
          m = digits_value (ip @ fp) 0;
          limit = (2 :: int) ^ 1024 - 2 ^ 970
      in if 0 \<le> e then limit \<le> m * 10 ^ nat e else limit * 10 ^ nat (- e) \<le> m)"

text \<open>
  \<open>foldName\<close>: an object key names a struct field when the two are equal after case
  folding. ASCII letters fold to upper case; the only other characters that fold to an
  ASCII letter are \<open>U+017F\<close> (to \<open>S\<close>) and \<open>U+212A\<close> (to \<open>K\<close>). Other bytes are kept: they
  never equal a byte of a field name, all of which are ASCII here.
\<close>

definition foldByte :: "char \<Rightarrow> char" where
  "foldByte c = (if 97 \<le> byte c \<and> byte c \<le> 122 then chr (byte c - 32) else c)"

fun foldName :: "string \<Rightarrow> string" where
  "foldName [] = []"
| "foldName (c # cs) =
     (if byte c < 0x80 then foldByte c # foldName cs
      else if take 2 (c # cs) = [CHR 0xC5, CHR 0xBF] then CHR ''S'' # foldName (drop 1 cs)
      else if take 3 (c # cs) = [CHR 0xE2, CHR 0x84, CHR 0xAA] then CHR ''K'' # foldName (drop 2 cs)
      else c # foldName cs)"

subsection \<open>Decoding into a Go type\<close>

text \<open>The Go types of the two targets, with the JSON name of every struct field, and the
  values of these types.\<close>

datatype gotype =
    TString
  | TBool
  | TInt
  | TInterface
  | TPointer gotype
  | TSlice gotype
  | TMap gotype
  | TStruct "(string \<times> gotype) list"

datatype goval =
    VString string
  | VBool bool
  | VInt int
  | VNil
  | VInterface json
  | VPointer goval
  | VSlice "goval list"
  | VMap "(string \<times> goval) list"
  | VStruct "(string \<times> goval) list"

fun zero :: "gotype \<Rightarrow> goval"
  and zero_fields :: "(string \<times> gotype) list \<Rightarrow> (string \<times> goval) list" where
  "zero TString = VString []"
| "zero TBool = VBool False"
| "zero TInt = VInt 0"
| "zero TInterface = VNil"
| "zero (TPointer t) = VNil"
| "zero (TSlice t) = VNil"
| "zero (TMap t) = VNil"
| "zero (TStruct fs) = VStruct (zero_fields fs)"
| "zero_fields [] = []"
| "zero_fields ((name, t) # fs) = (name, zero t) # zero_fields fs"

text \<open>
  What an \<open>interface{}\<close> receives (\<open>valueInterface\<close>): the value itself, with \<open>nil\<close> in the
  place of a number that does not fit a \<open>float64\<close>, and whether there was such a number. In
  an object a later member replaces an earlier one of the same key.
\<close>

fun interface_value :: "json \<Rightarrow> json \<times> bool"
  and interface_elems :: "json list \<Rightarrow> json list \<times> bool"
  and interface_members :: "(string \<times> json) list \<Rightarrow> (string \<times> json) list \<times> bool" where
  "interface_value (JNumber lit) =
     (if float64_overflows lit then (JNull, True) else (JNumber lit, False))"
| "interface_value (JArray vs) = (case interface_elems vs of (vs', e) \<Rightarrow> (JArray vs', e))"
| "interface_value (JObject ms) = (case interface_members ms of (ms', e) \<Rightarrow> (JObject ms', e))"
| "interface_value JNull = (JNull, False)"
| "interface_value (JBool b) = (JBool b, False)"
| "interface_value (JString s) = (JString s, False)"
| "interface_elems [] = ([], False)"
| "interface_elems (v # vs) =
     (case interface_value v of (v', e) \<Rightarrow>
        (case interface_elems vs of (vs', es) \<Rightarrow> (v' # vs', e \<or> es)))"
| "interface_members [] = ([], False)"
| "interface_members ((k, v) # ms) =
     (case interface_value v of (v', e) \<Rightarrow>
        (case interface_members ms of (ms', es) \<Rightarrow>
           (if k \<in> fst ` set ms' then ms' else (k, v') # ms', e \<or> es)))"

text \<open>The field an object key names: one of that very name, else the first that is equal
  to it after folding.\<close>

definition find_field :: "(string \<times> gotype) list \<Rightarrow> string \<Rightarrow> (string \<times> gotype) option" where
  "find_field fs key =
     (case find (\<lambda>(name, t). name = key) fs of
        Some f \<Rightarrow> Some f
      | None \<Rightarrow> find (\<lambda>(name, t). foldName name = foldName key) fs)"

definition field_value :: "(string \<times> goval) list \<Rightarrow> string \<Rightarrow> goval" where
  "field_value vs name = (case map_of vs name of Some v \<Rightarrow> v | None \<Rightarrow> VNil)"

text \<open>
  \<open>store t cur j\<close> decodes the JSON value \<open>j\<close> into a variable of type \<open>t\<close> that holds \<open>cur\<close>
  (\<open>d.value\<close>, \<open>d.object\<close>, \<open>d.array\<close>, \<open>d.literalStore\<close>): the new content of the variable and
  whether an \<open>UnmarshalTypeError\<close> was saved. Such an error does not stop the decoder. \<open>null\<close>
  sets an interface, pointer, map or slice to nil and leaves anything else as it is; a
  nil pointer is allocated; a map element is decoded into a fresh zero value and stored
  under its key; a struct field keeps what it holds unless the value replaces it; a key
  that names no field is skipped.
\<close>

fun store :: "gotype \<Rightarrow> goval \<Rightarrow> json \<Rightarrow> goval \<times> bool"
  and store_elems :: "gotype \<Rightarrow> goval list \<Rightarrow> json list \<Rightarrow> goval list \<times> bool"
  and store_map ::
    "gotype \<Rightarrow> (string \<times> goval) list \<Rightarrow> (string \<times> json) list \<Rightarrow> (string \<times> goval) list \<times> bool"
  and store_struct ::
    "(string \<times> gotype) list \<Rightarrow> (string \<times> goval) list \<Rightarrow> (string \<times> json) list
      \<Rightarrow> (string \<times> goval) list \<times> bool"
where
  "store TString cur j =
     (case j of JNull \<Rightarrow> (cur, False) | JString s \<Rightarrow> (VString s, False) | _ \<Rightarrow> (cur, True))"
| "store TBool cur j =
     (case j of JNull \<Rightarrow> (cur, False) | JBool b \<Rightarrow> (VBool b, False) | _ \<Rightarrow> (cur, True))"
| "store TInt cur j =
     (case j of
        JNull \<Rightarrow> (cur, False)
      | JNumber lit \<Rightarrow> (case ParseInt64 lit of Some n \<Rightarrow> (VInt n, False) | None \<Rightarrow> (cur, True))
      | _ \<Rightarrow> (cur, True))"
| "store TInterface cur j =
     (case j of
        JNull \<Rightarrow> (VNil, False)
      | JNumber lit \<Rightarrow>
          if float64_overflows lit then (cur, True) else (VInterface (JNumber lit), False)
      | _ \<Rightarrow> (case interface_value j of (v, e) \<Rightarrow> (VInterface v, e)))"
| "store (TPointer t) cur j =
     (if j = JNull then (VNil, False)
      else case store t (case cur of VPointer v \<Rightarrow> v | _ \<Rightarrow> zero t) j of
             (v, e) \<Rightarrow> (VPointer v, e))"
| "store (TSlice t) cur j =
     (case j of
        JNull \<Rightarrow> (VNil, False)
      | JArray vs \<Rightarrow>
          (case store_elems t (case cur of VSlice old \<Rightarrow> old | _ \<Rightarrow> []) vs of
             (vs', e) \<Rightarrow> (VSlice vs', e))
      | _ \<Rightarrow> (cur, True))"
| "store (TMap t) cur j =
     (case j of
        JNull \<Rightarrow> (VNil, False)
      | JObject ms \<Rightarrow>
          (case store_map t (case cur of VMap old \<Rightarrow> old | _ \<Rightarrow> []) ms of
             (ms', e) \<Rightarrow> (VMap ms', e))
      | _ \<Rightarrow> (cur, True))"
| "store (TStruct fs) cur j =
     (case j of
        JNull \<Rightarrow> (cur, False)
      | JObject ms \<Rightarrow>
          (case store_struct fs (case cur of VStruct old \<Rightarrow> old | _ \<Rightarrow> zero_fields fs) ms of
             (vs, e) \<Rightarrow> (VStruct vs, e))
      | _ \<Rightarrow> (cur, True))"
| "store_elems t old [] = ([], False)"
| "store_elems t old (j # js) =
     (case store t (case old of [] \<Rightarrow> zero t | v # _ \<Rightarrow> v) j of
        (v, e) \<Rightarrow>
          (case store_elems t (drop 1 old) js of (vs, es) \<Rightarrow> (v # vs, e \<or> es)))"
| "store_map t cur [] = (cur, False)"
| "store_map t cur ((key, j) # ms) =
     (case store t (zero t) j of
        (v, e) \<Rightarrow>
          (case store_map t (AList.update key v cur) ms of (r, es) \<Rightarrow> (r, e \<or> es)))"
| "store_struct fs cur [] = (cur, False)"
| "store_struct fs cur ((key, j) # ms) =
     (case find_field fs key of
        None \<Rightarrow> store_struct fs cur ms
      | Some (name, t) \<Rightarrow>
          (case store t (field_value cur name) j of
             (v, e) \<Rightarrow>
               (case store_struct fs (AList.update name v cur) ms of (r, es) \<Rightarrow> (r, e \<or> es))))"

subsection \<open>The two targets\<close>

definition T_Contract :: gotype where
  "T_Contract = TStruct [(''content'', TString)]"

definition T_Optimizer :: gotype where
  "T_Optimizer = TStruct [(''enabled'', TBool), (''runs'', TInt)]"

definition T_Settings :: gotype where
  "T_Settings = TStruct
     [(''optimizer'', TPointer T_Optimizer),
      (''outputSelection'', TMap (TMap (TSlice TString))),
      (''libraries'', TInterface)]"

definition T_SourceCode :: gotype where
  "T_SourceCode = TStruct
     [(''language'', TString),
      (''sources'', TMap (TPointer T_Contract)),
      (''settings'', T_Settings)]"

text \<open>\<open>IsOneSource\<close> has no tag, so its JSON name is the name of the field.\<close>

definition T_RawCode :: gotype where
  "T_RawCode = TStruct
     [(''SourceCode'', TString), (''ABI'', TString), (''ContractName'', TString),
      (''CompilerVersion'', TString), (''OptimizationUsed'', TString), (''Runs'', TString),
      (''ConstructorArguments'', TString), (''EVMVersion'', TString), (''Library'', TString),
      (''LicenseType'', TString), (''Proxy'', TString), (''Implementation'', TString),
      (''SwarmSource'', TString), (''IsOneSource'', TBool)]"

definition T_Response :: gotype where
  "T_Response = TStruct
     [(''status'', TString), (''message'', TString), (''result'', TSlice (TPointer T_RawCode))]"

text \<open>Reading the records of the data model off the decoded values.\<close>

definition field :: "goval \<Rightarrow> string \<Rightarrow> goval" where
  "field g name = (case g of VStruct vs \<Rightarrow> field_value vs name | _ \<Rightarrow> VNil)"

definition as_string :: "goval \<Rightarrow> string" where
  "as_string g = (case g of VString s \<Rightarrow> s | _ \<Rightarrow> [])"

definition as_bool :: "goval \<Rightarrow> bool" where
  "as_bool g = (case g of VBool b \<Rightarrow> b | _ \<Rightarrow> False)"

definition as_int :: "goval \<Rightarrow> int" where
  "as_int g = (case g of VInt n \<Rightarrow> n | _ \<Rightarrow> 0)"

definition as_interface :: "goval \<Rightarrow> json option" where
  "as_interface g = (case g of VInterface j \<Rightarrow> Some j | _ \<Rightarrow> None)"

definition as_pointer :: "(goval \<Rightarrow> 'a) \<Rightarrow> goval \<Rightarrow> 'a option" where
  "as_pointer f g = (case g of VPointer v \<Rightarrow> Some (f v) | _ \<Rightarrow> None)"

definition as_slice :: "(goval \<Rightarrow> 'a) \<Rightarrow> goval \<Rightarrow> 'a list" where
  "as_slice f g = (case g of VSlice vs \<Rightarrow> map f vs | _ \<Rightarrow> [])"

definition as_map :: "(goval \<Rightarrow> 'a) \<Rightarrow> goval \<Rightarrow> (string \<rightharpoonup> 'a)" where
  "as_map f g = (case g of VMap ms \<Rightarrow> map_of (map (\<lambda>(k, v). (k, f v)) ms) | _ \<Rightarrow> Map.empty)"

definition to_Contract :: "goval \<Rightarrow> Contract" where
  "to_Contract g = \<lparr>Content = as_string (field g ''content'')\<rparr>"

definition to_Optimizer :: "goval \<Rightarrow> Optimizer" where
  "to_Optimizer g =
     \<lparr>Enabled = as_bool (field g ''enabled''), Optimizer.Runs = as_int (field g ''runs'')\<rparr>"

definition to_Settings :: "goval \<Rightarrow> Settings" where
  "to_Settings g =
     \<lparr>Optimizer = as_pointer to_Optimizer (field g ''optimizer''),
      OutputSelection = as_map (as_map (as_slice as_string)) (field g ''outputSelection''),
      Libraries = as_interface (field g ''libraries'')\<rparr>"

definition to_SourceCode :: "goval \<Rightarrow> SourceCode" where
  "to_SourceCode g =
     \<lparr>Language = as_string (field g ''language''),
      Sources = as_map (as_pointer to_Contract) (field g ''sources''),
      Settings = to_Settings (field g ''settings'')\<rparr>"

definition to_RawCode :: "goval \<Rightarrow> RawCode" where
  "to_RawCode g =
     \<lparr>SourceCode = as_string (field g ''SourceCode''),
      Abi = as_string (field g ''ABI''),
      ContractName = as_string (field g ''ContractName''),
      CompilerVersion = as_string (field g ''CompilerVersion''),
      OptimizationUsed = as_string (field g ''OptimizationUsed''),
      RawCode.Runs = as_string (field g ''Runs''),
      ConstructorArguments = as_string (field g ''ConstructorArguments''),
      EVMVersion = as_string (field g ''EVMVersion''),
      Library = as_string (field g ''Library''),
      LicenseType = as_string (field g ''LicenseType''),
      Proxy = as_string (field g ''Proxy''),
      Implementation = as_string (field g ''Implementation''),
      SwarmSource = as_string (field g ''SwarmSource''),
      IsOneSource = as_bool (field g ''IsOneSource'')\<rparr>"

definition to_Response :: "goval \<Rightarrow> Response" where
  "to_Response g =
     \<lparr>Status = as_string (field g ''status''),
      Message = as_string (field g ''message''),
      Codes = as_slice (as_pointer to_RawCode) (field g ''result'')\<rparr>"

text \<open>
  \<open>json.Unmarshal(data, v)\<close> with \<open>v\<close> pointing to a zero value of type \<open>t\<close>: the whole of
  \<open>data\<close> must be one JSON value between white space (\<open>checkValid\<close>), else \<open>v\<close> is left
  alone; then the value is stored, and the first saved error is returned.
\<close>

definition json_Unmarshal :: "gotype \<Rightarrow> string \<Rightarrow> goval \<times> error option" where
  "json_Unmarshal t data =
     (case parse_value 0 data of
        None \<Rightarrow> (zero t, Some SyntaxError)
      | Some (j, rest) \<Rightarrow>
          if skip_space rest \<noteq> [] then (zero t, Some SyntaxError)
          else case store t (zero t) j of
                 (v, e) \<Rightarrow> (v, if e then Some UnmarshalTypeError else None))"

text \<open>
  \<open>json.NewDecoder(r).Decode(v)\<close>, first call: \<open>readValue\<close> takes the first JSON value of
  the stream, and what follows that value is not looked at.
\<close>

definition json_Decode :: "gotype \<Rightarrow> string \<Rightarrow> goval \<times> error option" where
  "json_Decode t data =
     (case parse_value 0 data of
        None \<Rightarrow> (zero t, Some SyntaxError)
      | Some (j, rest) \<Rightarrow>
          (case store t (zero t) j of
             (v, e) \<Rightarrow> (v, if e then Some UnmarshalTypeError else None)))"

text \<open>The two calls of main.go.\<close>

definition Unmarshal_SourceCode :: unmarshal where
  "Unmarshal_SourceCode data =
     (case json_Unmarshal T_SourceCode data of (v, err) \<Rightarrow> (to_SourceCode v, err))"

definition Decode_Response :: decode where
  "Decode_Response bs =
     (case json_Decode T_Response bs of (v, err) \<Rightarrow> (to_Response v, err))"

section \<open>Sample inputs\<close>

text \<open>
  Inputs for running the functions. \<open>entry s\<close> is \<open>&RawCode{SourceCode: s}\<close>, the shape of an
  element of the explorer's \<open>result\<close> array as far as \<open>parseContractCode\<close> reads it.
  \<open>doc_A\<close> and \<open>doc_B\<close> are what \<open>json.Unmarshal\<close> leaves for the two standard-json documents
  used below.
\<close>

definition entry :: "string \<Rightarrow> RawCode" where
  "entry s = zero_RawCode\<lparr>SourceCode := s\<rparr>"

definition doc_A :: SourceCode where
  "doc_A =
     \<lparr>Language = [],
      Sources = [''A.sol'' \<mapsto> Some \<lparr>Content = ''pragma solidity ^0.8.0;''\<rparr>],
      Settings = zero_Settings\<rparr>"

definition doc_B :: SourceCode where
  "doc_B =
     \<lparr>Language = ''Solidity'',
      Sources = [''B.sol'' \<mapsto> Some \<lparr>Content = ''contract B {}''\<rparr>],
      Settings = zero_Settings\<rparr>"

section \<open>The strip read on characters\<close>

text \<open>
  A Go string holds bytes, and the text of a contract is UTF-8: a character outside ASCII
  takes two to four bytes. \<open>characters s\<close> cuts \<open>s\<close> into its characters the way
  \<open>utf8.DecodeRuneInString\<close> and \<open>for range\<close> do: a well-formed sequence is one character, and
  a byte that starts none is a character of its own. \<open>strip_characters\<close> is the reading of
  "strip exactly one leading and one trailing character" on characters; it is not part of
  main.go and stands here to be compared with \<open>inner\<close>.
\<close>

function characters :: "string \<Rightarrow> string list" where
  "characters s =
     (if s = [] then []
      else take (max 1 (rune_size s)) s # characters (drop (max 1 (rune_size s)) s))"
  by pat_completeness auto
termination
  by (relation "measure length") auto

declare characters.simps [simp del]

definition strip_characters :: "string \<Rightarrow> string" where
  "strip_characters s = concat (butlast (tl (characters s)))"

section \<open>Properties\<close>

subsection \<open>The slice expression\<close>

lemma inner_Cons_snoc: "SourceCode e = a # t @ [b] \<Longrightarrow> inner e = Return t"
  by (simp add: inner_def slice_def)

lemma inner_short: "length (SourceCode e) < 2 \<Longrightarrow> inner e = Panic SliceBoundsOutOfRange"
  by (auto simp: inner_def slice_def)

lemma inner_long: "2 \<le> length (SourceCode e) \<Longrightarrow> inner e = Return (butlast (tl (SourceCode e)))"
proof -
  assume len: "2 \<le> length (SourceCode e)"
  then obtain a s' where s: "SourceCode e = a # s'" by (cases "SourceCode e") auto
  with len have "s' \<noteq> []" by auto
  then have "s' = butlast s' @ [last s']" by simp
  with s have "SourceCode e = a # butlast s' @ [last s']" by simp
  from inner_Cons_snoc [OF this] s show ?thesis by simp
qed

lemma inner_Panic_D: "inner e = Panic p \<Longrightarrow> length (SourceCode e) < 2 \<and> p = SliceBoundsOutOfRange"
  by (auto simp: inner_def slice_def split: if_splits)

lemma decodes_not_fails: "decodes_to u e sc \<Longrightarrow> \<not> decode_fails u e"
  by (auto simp: decodes_to_def decode_fails_def split: outcome.splits)

subsection \<open>The loop\<close>

text \<open>When every entry decodes, the loop appends the documents in order.\<close>

lemma loop_all_decode:
  "list_all2 (decodes_to u) es scs \<Longrightarrow>
   parse_loop u rawCodes (map Some es) acc = Return (acc @ scs, None)"
proof (induction es scs arbitrary: acc rule: list_all2_induct)
  case Nil
  then show ?case by simp
next
  case (Cons e es sc scs)
  from Cons.hyps(1) obtain data where "inner e = Return data" "u data = (sc, None)"
    by (cases "inner e") (auto simp: decodes_to_def)
  then show ?case using Cons.IH [of "acc @ [sc]"] by simp
qed

text \<open>An entry whose decode fails, behind entries that can be sliced, ends the loop with
  the bundle of the early return.\<close>

lemma loop_fallback:
  "\<forall>p\<in>set pre. 2 \<le> length (SourceCode p) \<Longrightarrow> decode_fails u e \<Longrightarrow>
   parse_loop u rawCodes (map Some pre @ Some e # todo) acc = one_main_sol rawCodes"
proof (induction pre arbitrary: acc)
  case Nil
  then show ?case
    by (auto simp: decode_fails_def split: outcome.splits prod.splits option.splits)
next
  case (Cons p pre)
  then have "inner p = Return (butlast (tl (SourceCode p)))" by (simp add: inner_long)
  then show ?case using Cons by (auto split: prod.splits option.splits)
qed

text \<open>An entry too short to be sliced, behind entries that decode, ends the loop with a
  panic.\<close>

lemma loop_panic:
  "\<forall>p\<in>set pre. \<exists>sc. decodes_to u p sc \<Longrightarrow> length (SourceCode e) < 2 \<Longrightarrow>
   parse_loop u rawCodes (map Some pre @ Some e # todo) acc = Panic SliceBoundsOutOfRange"
proof (induction pre arbitrary: acc)
  case Nil
  then show ?case by (simp add: inner_short)
next
  case (Cons p pre)
  then obtain sc where "decodes_to u p sc" by auto
  then obtain data where "inner p = Return data" "u data = (sc, None)"
    by (cases "inner p") (auto simp: decodes_to_def)
  then show ?case using Cons by simp
qed

text \<open>The two ways the loop returns.\<close>

lemma loop_Return:
  "parse_loop u rawCodes todo acc = Return r \<Longrightarrow>
   (\<exists>ds. r = (acc @ ds, None) \<and>
      list_all2 (\<lambda>rc sc. \<exists>e. rc = Some e \<and> decodes_to u e sc) todo ds) \<or>
   (one_main_sol rawCodes = Return r \<and> (\<exists>e. Some e \<in> set todo \<and> decode_fails u e))"
proof (induction u rawCodes todo acc rule: parse_loop.induct)
  case (1 Unmarshal rawCodes sourceCodes)
  then show ?case by simp
next
  case (2 Unmarshal rawCodes todo sourceCodes)
  then show ?case by simp
next
  case (3 Unmarshal rawCodes rawCode todo sourceCodes)
  from "3.prems" obtain data where d: "inner rawCode = Return data"
    by (auto split: outcome.splits)
  obtain sc err where u: "Unmarshal data = (sc, err)" by (cases "Unmarshal data")
  show ?case
  proof (cases err)
    case None
    with d u "3.prems" have "parse_loop Unmarshal rawCodes todo (sourceCodes @ [sc]) = Return r"
      by simp
    from "3.IH" [OF d u [symmetric] None this] d u None
    show ?thesis by (auto simp: decodes_to_def)
  next
    case (Some x)
    with d u "3.prems" show ?thesis by (auto simp: decode_fails_def)
  qed
qed

text \<open>The two ways the loop panics on a slice without nil pointers.\<close>

lemma loop_Panic:
  "parse_loop u rawCodes (map Some es) acc = Panic p \<Longrightarrow>
   (\<exists>pre e post. es = pre @ e # post \<and> (\<forall>q\<in>set pre. \<exists>sc. decodes_to u q sc) \<and>
      length (SourceCode e) < 2 \<and> p = SliceBoundsOutOfRange) \<or>
   one_main_sol rawCodes = Panic p"
proof (induction es arbitrary: acc)
  case Nil
  then show ?case by simp
next
  case (Cons e es)
  show ?case
  proof (cases "inner e")
    case (Panic q)
    with Cons.prems have "q = p" by simp
    with Panic have "length (SourceCode e) < 2 \<and> p = SliceBoundsOutOfRange"
      by (simp add: inner_Panic_D)
    then have "e # es = [] @ e # es \<and> (\<forall>q\<in>set []. \<exists>sc. decodes_to u q sc) \<and>
      length (SourceCode e) < 2 \<and> p = SliceBoundsOutOfRange" by simp
    then show ?thesis by blast
  next
    case (Return data)
    obtain sc err where ud: "u data = (sc, err)" by (cases "u data")
    show ?thesis
    proof (cases err)
      case None
      with Return ud Cons.prems have "parse_loop u rawCodes (map Some es) (acc @ [sc]) = Panic p"
        by simp
      from Cons.IH [OF this] show ?thesis
      proof
        assume "\<exists>pre e' post. es = pre @ e' # post \<and> (\<forall>q\<in>set pre. \<exists>sc. decodes_to u q sc) \<and>
          length (SourceCode e') < 2 \<and> p = SliceBoundsOutOfRange"
        then obtain pre e' post where s: "es = pre @ e' # post"
          "\<forall>q\<in>set pre. \<exists>sc. decodes_to u q sc" "length (SourceCode e') < 2"
          "p = SliceBoundsOutOfRange" by blast
        from Return ud None have "decodes_to u e sc" by (simp add: decodes_to_def)
        with s have "e # es = (e # pre) @ e' # post \<and>
          (\<forall>q\<in>set (e # pre). \<exists>sc. decodes_to u q sc) \<and>
          length (SourceCode e') < 2 \<and> p = SliceBoundsOutOfRange" by auto
        then show ?thesis by blast
      next
        assume "one_main_sol rawCodes = Panic p"
        then show ?thesis by simp
      qed
    next
      case (Some x)
      with Return ud Cons.prems show ?thesis by simp
    qed
  qed
qed

subsection \<open>The function\<close>

lemma one_main_sol_Return:
  "one_main_sol rawCodes = Return r \<Longrightarrow>
   \<exists>r0 rest. rawCodes = Some r0 # rest \<and> r = ([main_sol (SourceCode r0)], None)"
  by (auto simp: one_main_sol_def split: list.splits option.splits)

lemma one_main_sol_Cons: "one_main_sol (Some r0 # rest) = Return ([main_sol (SourceCode r0)], None)"
  by (simp add: one_main_sol_def)

lemma main_sol_eq:
  "main_sol content =
     \<lparr>Language = [], Sources = [''main.sol'' \<mapsto> Some \<lparr>Content = content\<rparr>],
      Settings = zero_Settings\<rparr>"
  by (simp add: main_sol_def zero_SourceCode_def)

lemma dom_main_sol: "dom (Sources (main_sol content)) = {''main.sol''}"
  by (simp add: main_sol_def)

lemma not_single_loop:
  "\<not> single_flat_source rawCodes \<Longrightarrow> rawCodes \<noteq> [None] \<Longrightarrow>
   parseContractCode u rawCodes = parse_loop u rawCodes rawCodes []"
proof (cases rawCodes)
  case Nil
  then show ?thesis by (simp add: parseContractCode_def)
next
  case (Cons rc rest)
  assume "\<not> single_flat_source rawCodes" "rawCodes \<noteq> [None]"
  with Cons show ?thesis
    by (cases rest; cases rc) (simp_all add: parseContractCode_def single_flat_source_def)
qed

lemma not_single_loop_Some:
  "\<not> single_flat_source (map Some es) \<Longrightarrow>
   parseContractCode u (map Some es) = parse_loop u (map Some es) (map Some es) []"
  by (rule not_single_loop) (auto simp: map_eq_Cons_conv)

lemma single_flat_source_D:
  "single_flat_source rawCodes \<Longrightarrow> \<exists>r0. rawCodes = [Some r0] \<and> IsOneSource r0"
proof (cases rawCodes)
  case Nil
  assume "single_flat_source rawCodes"
  with Nil show ?thesis by (simp add: single_flat_source_def)
next
  case (Cons rc rest)
  assume "single_flat_source rawCodes"
  with Cons show ?thesis
    by (cases rest; cases rc) (simp_all add: single_flat_source_def)
qed

lemma parse_single:
  "single_flat_source rawCodes \<Longrightarrow> parseContractCode u rawCodes = one_main_sol rawCodes"
  by (auto simp: parseContractCode_def dest!: single_flat_source_D)

text \<open>The three ways \<open>parseContractCode\<close> returns: the special case, one document per entry,
  and the early return of the loop.\<close>

lemma parse_Return:
  assumes "parseContractCode u rawCodes = Return r"
  shows "(single_flat_source rawCodes \<and> one_main_sol rawCodes = Return r) \<or>
         (\<not> single_flat_source rawCodes \<and>
            (\<exists>ds. r = (ds, None) \<and>
               list_all2 (\<lambda>rc sc. \<exists>e. rc = Some e \<and> decodes_to u e sc) rawCodes ds)) \<or>
         (\<not> single_flat_source rawCodes \<and> one_main_sol rawCodes = Return r \<and>
            (\<exists>e. Some e \<in> set rawCodes \<and> decode_fails u e))"
proof (cases "single_flat_source rawCodes")
  case True
  with assms show ?thesis by (simp add: parse_single)
next
  case False
  have "rawCodes \<noteq> [None]" using assms by (auto simp: parseContractCode_def)
  with False assms have "parse_loop u rawCodes rawCodes [] = Return r"
    by (simp add: not_single_loop)
  from loop_Return [OF this] False show ?thesis by auto
qed

subsection \<open>Runs on the sample inputs\<close>

lemma SourceCode_entry [simp]: "SourceCode (entry s) = s"
  by (simp add: entry_def)

lemma IsOneSource_entry [simp]: "\<not> IsOneSource (entry s)"
  by (simp add: entry_def zero_RawCode_def)

lemmas to_record =
  to_SourceCode_def to_Settings_def to_Contract_def to_Optimizer_def to_Response_def
  to_RawCode_def field_def field_value_def as_string_def as_bool_def as_int_def
  as_interface_def as_pointer_def as_slice_def as_map_def

lemma json_doc_A:
  "json_Unmarshal T_SourceCode
     ''{\"sources\":{\"A.sol\":{\"content\":\"pragma solidity ^0.8.0;\"}}}'' =
     (VStruct
        [(''language'', VString []),
         (''sources'',
            VMap [(''A.sol'',
              VPointer (VStruct [(''content'', VString ''pragma solidity ^0.8.0;'')]))]),
         (''settings'',
            VStruct [(''optimizer'', VNil), (''outputSelection'', VNil), (''libraries'', VNil)])],
      None)"
  by code_simp

lemma Unmarshal_doc_A:
  "Unmarshal_SourceCode ''{\"sources\":{\"A.sol\":{\"content\":\"pragma solidity ^0.8.0;\"}}}''
     = (doc_A, None)"
  by (simp add: Unmarshal_SourceCode_def json_doc_A to_record doc_A_def zero_Settings_def)

lemma json_doc_B:
  "json_Unmarshal T_SourceCode
     ''{\"language\":\"Solidity\",\"sources\":{\"B.sol\":{\"content\":\"contract B {}\"}}}'' =
     (VStruct
        [(''language'', VString ''Solidity''),
         (''sources'',
            VMap [(''B.sol'', VPointer (VStruct [(''content'', VString ''contract B {}'')]))]),
         (''settings'',
            VStruct [(''optimizer'', VNil), (''outputSelection'', VNil), (''libraries'', VNil)])],
      None)"
  by code_simp

lemma Unmarshal_doc_B:
  "Unmarshal_SourceCode
     ''{\"language\":\"Solidity\",\"sources\":{\"B.sol\":{\"content\":\"contract B {}\"}}}''
     = (doc_B, None)"
  by (simp add: Unmarshal_SourceCode_def json_doc_B to_record doc_B_def zero_Settings_def)

lemma json_empty_object:
  "json_Unmarshal T_SourceCode ''{}'' =
     (VStruct
        [(''language'', VString []), (''sources'', VNil),
         (''settings'',
            VStruct [(''optimizer'', VNil), (''outputSelection'', VNil), (''libraries'', VNil)])],
      None)"
  by code_simp

lemma Unmarshal_empty_object: "Unmarshal_SourceCode ''{}'' = (zero_SourceCode, None)"
  by (simp add: Unmarshal_SourceCode_def json_empty_object to_record zero_SourceCode_def
      zero_Settings_def)

lemma json_bad:
  "json_Unmarshal T_SourceCode ''bad'' =
     (VStruct
        [(''language'', VString []), (''sources'', VNil),
         (''settings'',
            VStruct [(''optimizer'', VNil), (''outputSelection'', VNil), (''libraries'', VNil)])],
      Some SyntaxError)"
  by code_simp

lemma Unmarshal_bad: "Unmarshal_SourceCode ''bad'' = (zero_SourceCode, Some SyntaxError)"
  by (simp add: Unmarshal_SourceCode_def json_bad to_record zero_SourceCode_def
      zero_Settings_def)

lemma inner_A:
  "inner (entry ''{{\"sources\":{\"A.sol\":{\"content\":\"pragma solidity ^0.8.0;\"}}}}'')
     = Return ''{\"sources\":{\"A.sol\":{\"content\":\"pragma solidity ^0.8.0;\"}}}''"
  by (rule inner_Cons_snoc [where a = "CHR ''{''" and b = "CHR ''}''"]) simp

lemma inner_B:
  "inner (entry
     ''{{\"language\":\"Solidity\",\"sources\":{\"B.sol\":{\"content\":\"contract B {}\"}}}}'')
     = Return
         ''{\"language\":\"Solidity\",\"sources\":{\"B.sol\":{\"content\":\"contract B {}\"}}}''"
  by (rule inner_Cons_snoc [where a = "CHR ''{''" and b = "CHR ''}''"]) simp

lemma inner_bad: "inner (entry ''{bad}'') = Return ''bad''"
  by (rule inner_Cons_snoc [where a = "CHR ''{''" and b = "CHR ''}''"]) simp

lemma inner_braces: "inner (entry ''{{}}'') = Return ''{}''"
  by (rule inner_Cons_snoc [where a = "CHR ''{''" and b = "CHR ''}''"]) simp

lemma inner_empty: "inner (entry '''') = Panic SliceBoundsOutOfRange"
  by (simp add: inner_short)

text \<open>The text \<open>{}\<close> between two \<open>U+00E9\<close>, each the bytes \<open>C3 A9\<close>: the slice expression leaves
  \<open>A9 7B 7D C3\<close>, which is no JSON text.\<close>

lemma inner_e_acute:
  "inner (entry [CHR 0xC3, CHR 0xA9, CHR ''{'', CHR ''}'', CHR 0xC3, CHR 0xA9]) =
     Return [CHR 0xA9, CHR ''{'', CHR ''}'', CHR 0xC3]"
  by (rule inner_Cons_snoc [where a = "CHR 0xC3" and b = "CHR 0xA9"]) simp

lemma json_e_acute:
  "json_Unmarshal T_SourceCode [CHR 0xA9, CHR ''{'', CHR ''}'', CHR 0xC3] =
     (VStruct
        [(''language'', VString []), (''sources'', VNil),
         (''settings'',
            VStruct [(''optimizer'', VNil), (''outputSelection'', VNil), (''libraries'', VNil)])],
      Some SyntaxError)"
  by code_simp

lemma Unmarshal_e_acute:
  "Unmarshal_SourceCode [CHR 0xA9, CHR ''{'', CHR ''}'', CHR 0xC3] =
     (zero_SourceCode, Some SyntaxError)"
  by (simp add: Unmarshal_SourceCode_def json_e_acute to_record zero_SourceCode_def
      zero_Settings_def)

lemma strip_characters_e_acute:
  "strip_characters [CHR 0xC3, CHR 0xA9, CHR ''{'', CHR ''}'', CHR 0xC3, CHR 0xA9] = ''{}''"
  by code_simp

lemma decodes_A:
  "decodes_to Unmarshal_SourceCode
     (entry ''{{\"sources\":{\"A.sol\":{\"content\":\"pragma solidity ^0.8.0;\"}}}}'') doc_A"
  by (simp add: decodes_to_def inner_A Unmarshal_doc_A)

lemma decodes_B:
  "decodes_to Unmarshal_SourceCode
     (entry
       ''{{\"language\":\"Solidity\",\"sources\":{\"B.sol\":{\"content\":\"contract B {}\"}}}}'')
     doc_B"
  by (simp add: decodes_to_def inner_B Unmarshal_doc_B)

lemma fails_bad: "decode_fails Unmarshal_SourceCode (entry ''{bad}'')"
  by (simp add: decode_fails_def inner_bad Unmarshal_bad)

lemma json_plain:
  "json_Decode T_Response ''pragma solidity ^0.8.0;'' = (zero T_Response, Some SyntaxError)"
  by code_simp

lemma json_status0:
  "json_Decode T_Response ''{\"status\":\"0\",\"message\":\"NOTOK\",\"result\":[]}'' =
     (VStruct
        [(''status'', VString ''0''), (''message'', VString ''NOTOK''), (''result'', VSlice [])],
      None)"
  by code_simp

lemma Decode_status0:
  "Decode_Response ''{\"status\":\"0\",\"message\":\"NOTOK\",\"result\":[]}'' =
     (\<lparr>Status = ''0'', Message = ''NOTOK'', Codes = []\<rparr>, None)"
  by (simp add: Decode_Response_def json_status0 to_record)

section \<open>The claims\<close>

text \<open>
  In what follows \<open>normalize\<close> is \<open>parseContractCode\<close> and \<open>fetch\<close> is \<open>getRawContractCode\<close>; a
  list of RawEntry is a slice of non-nil pointers, \<open>map Some es\<close>; a SourceBundle is a
  \<open>SourceCode\<close>. The theorems hold for every behaviour \<open>Unmarshal\<close>, \<open>Decode\<close> and \<open>Get\<close> of the
  standard library; the runs use the reference model.
\<close>

subsection \<open>C4: the single flat source\<close>

text \<open>
  C4. For a slice of exactly one entry whose flag \<open>IsOneSource\<close> is set,
  \<open>parseContractCode\<close> returns one bundle whose \<open>Sources\<close> has the single key \<open>main.sol\<close>,
  mapped to the entry's \<open>SourceCode\<close> as it is, and a nil error. The result is the same
  for every decoder, so none is consulted, and the string may be of any length.
\<close>

theorem flat_source_special_case:
  assumes "IsOneSource rawCode"
  shows "parseContractCode Unmarshal [Some rawCode] =
     Return ([\<lparr>Language = [],
                Sources = [''main.sol'' \<mapsto> Some \<lparr>Content = SourceCode rawCode\<rparr>],
                Settings = zero_Settings\<rparr>], None)"
  using assms by (simp add: parseContractCode_def one_main_sol_def main_sol_eq)

theorem flat_source_special_case_witness:
  "IsOneSource (zero_RawCode\<lparr>SourceCode := ''x'', IsOneSource := True\<rparr>) \<and>
   parseContractCode Unmarshal_SourceCode
       [Some (zero_RawCode\<lparr>SourceCode := ''x'', IsOneSource := True\<rparr>)] =
     Return ([\<lparr>Language = [], Sources = [''main.sol'' \<mapsto> Some \<lparr>Content = ''x''\<rparr>],
                Settings = zero_Settings\<rparr>], None)"
proof -
  have h: "IsOneSource (zero_RawCode\<lparr>SourceCode := ''x'', IsOneSource := True\<rparr>)" by simp
  from flat_source_special_case [OF h, of Unmarshal_SourceCode] h show ?thesis by simp
qed

subsection \<open>C3: the strip\<close>

text \<open>
  C3, as stated, says that the decoder is given the entry's \<open>SourceCode\<close> without its first
  and its last character, whatever these characters are. It does not hold: the slice
  expression cuts bytes, and of a character of several bytes it removes one byte only.
  Here the \<open>SourceCode\<close> is \<open>{}\<close> between two \<open>U+00E9\<close> (bytes \<open>C3 A9 7B 7D C3 A9\<close>):
  without its first and last character it is \<open>{}\<close>, which decodes, but the decoder is given
  \<open>A9 7B 7D C3\<close>, fails, and the call returns the fallback bundle.
\<close>

theorem strip_counterexample:
  "strip_characters [CHR 0xC3, CHR 0xA9, CHR ''{'', CHR ''}'', CHR 0xC3, CHR 0xA9] = ''{}'' \<and>
   inner (entry [CHR 0xC3, CHR 0xA9, CHR ''{'', CHR ''}'', CHR 0xC3, CHR 0xA9]) =
     Return [CHR 0xA9, CHR ''{'', CHR ''}'', CHR 0xC3] \<and>
   Unmarshal_SourceCode ''{}'' = (zero_SourceCode, None) \<and>
   Unmarshal_SourceCode [CHR 0xA9, CHR ''{'', CHR ''}'', CHR 0xC3] =
     (zero_SourceCode, Some SyntaxError) \<and>
   parseContractCode Unmarshal_SourceCode
       [Some (entry [CHR 0xC3, CHR 0xA9, CHR ''{'', CHR ''}'', CHR 0xC3, CHR 0xA9])] =
     Return ([\<lparr>Language = [],
                Sources = [''main.sol'' \<mapsto> Some \<lparr>Content =
                  [CHR 0xC3, CHR 0xA9, CHR ''{'', CHR ''}'', CHR 0xC3, CHR 0xA9]\<rparr>],
                Settings = zero_Settings\<rparr>], None)"
  by (simp add: strip_characters_e_acute inner_e_acute Unmarshal_empty_object
      Unmarshal_e_acute parseContractCode_def one_main_sol_def main_sol_eq)

text \<open>
  C3, amended. One round of the loop on an entry: when the entry's \<open>SourceCode\<close> has fewer
  than two bytes the slice expression panics; otherwise the decoder is applied to the
  \<open>SourceCode\<close> without its first and its last byte, whatever these bytes are, and the loop
  goes on from the decoder's answer.
\<close>

theorem strip_is_positional:
  "parse_loop Unmarshal rawCodes (Some rawCode # todo) sourceCodes =
     (if length (SourceCode rawCode) < 2 then Panic SliceBoundsOutOfRange
      else case Unmarshal (butlast (tl (SourceCode rawCode))) of
             (sourceCode, Some err) \<Rightarrow> one_main_sol rawCodes
           | (sourceCode, None) \<Rightarrow>
               parse_loop Unmarshal rawCodes todo (sourceCodes @ [sourceCode]))"
  by (simp add: inner_short inner_long)

theorem strip_is_positional_witness:
  "butlast (tl ''x{}y'') = ''{}'' \<and>
   parse_loop Unmarshal_SourceCode [Some (entry ''x{}y'')] [Some (entry ''x{}y'')] [] =
     Return ([zero_SourceCode], None)"
  using strip_is_positional [of Unmarshal_SourceCode "[Some (entry ''x{}y'')]" "entry ''x{}y''" "[]" "[]"]
  by (simp add: Unmarshal_empty_object)

subsection \<open>C2: one bundle per entry\<close>

text \<open>
  C2. For a slice of entries that does not take the special case, when the inner decode
  of every entry succeeds, the \<open>i\<close>-th leaving the document \<open>sourceCodes ! i\<close>,
  \<open>parseContractCode\<close> returns exactly these documents, as many as there are entries and in
  the order of the entries, with a nil error. The \<open>i\<close>-th bundle is the \<open>i\<close>-th decoded
  document itself, so its \<open>Sources\<close> holds exactly the paths and contents of that document.
\<close>

theorem one_bundle_per_valid_entry:
  assumes "\<not> single_flat_source (map Some es)"
    and "list_all2 (decodes_to Unmarshal) es sourceCodes"
  shows "parseContractCode Unmarshal (map Some es) = Return (sourceCodes, None) \<and>
         length sourceCodes = length es"
  using assms loop_all_decode [of Unmarshal es sourceCodes "map Some es" "[]"]
  by (simp add: not_single_loop_Some list_all2_lengthD)

theorem one_bundle_per_valid_entry_witness:
  "\<not> single_flat_source (map Some
       [entry ''{{\"sources\":{\"A.sol\":{\"content\":\"pragma solidity ^0.8.0;\"}}}}'',
        entry ''{{\"language\":\"Solidity\",\"sources\":{\"B.sol\":{\"content\":\"contract B {}\"}}}}'']) \<and>
   list_all2 (decodes_to Unmarshal_SourceCode)
       [entry ''{{\"sources\":{\"A.sol\":{\"content\":\"pragma solidity ^0.8.0;\"}}}}'',
        entry ''{{\"language\":\"Solidity\",\"sources\":{\"B.sol\":{\"content\":\"contract B {}\"}}}}'']
       [doc_A, doc_B] \<and>
   parseContractCode Unmarshal_SourceCode (map Some
       [entry ''{{\"sources\":{\"A.sol\":{\"content\":\"pragma solidity ^0.8.0;\"}}}}'',
        entry ''{{\"language\":\"Solidity\",\"sources\":{\"B.sol\":{\"content\":\"contract B {}\"}}}}''])
     = Return ([doc_A, doc_B], None)"
proof -
  let ?es = "[entry ''{{\"sources\":{\"A.sol\":{\"content\":\"pragma solidity ^0.8.0;\"}}}}'',
              entry ''{{\"language\":\"Solidity\",\"sources\":{\"B.sol\":{\"content\":\"contract B {}\"}}}}'']"
  have h1: "\<not> single_flat_source (map Some ?es)" by (simp add: single_flat_source_def)
  have h2: "list_all2 (decodes_to Unmarshal_SourceCode) ?es [doc_A, doc_B]"
    by (simp add: decodes_A decodes_B)
  from one_bundle_per_valid_entry [OF h1 h2] h1 h2 show ?thesis by simp
qed

subsection \<open>C1: the fallback\<close>

text \<open>
  C1, as stated, says that a failing inner decode of any entry gives the fallback bundle.
  It does not hold: the loop slices the entries in order, and an entry of fewer than two
  bytes before the failing one ends the program with a panic. Here the second entry's
  decode fails and the first entry is the empty string.
\<close>

theorem fallback_counterexample:
  "\<not> single_flat_source (map Some [entry '''', entry ''{bad}'']) \<and>
   decode_fails Unmarshal_SourceCode (entry ''{bad}'') \<and>
   parseContractCode Unmarshal_SourceCode (map Some [entry '''', entry ''{bad}'']) =
     Panic SliceBoundsOutOfRange"
  by (simp add: single_flat_source_def fails_bad parseContractCode_def inner_empty)

text \<open>
  C1, amended. For a slice of entries that does not take the special case, when the
  inner decode of an entry fails and every entry before it has a \<open>SourceCode\<close> of at least
  two bytes, \<open>parseContractCode\<close> returns exactly one bundle, whose \<open>Sources\<close> has the single
  key \<open>main.sol\<close> mapped to the unstripped \<open>SourceCode\<close> of the first entry of the slice, and
  a nil error; the documents decoded before the failure are dropped.
\<close>

theorem fallback_on_decode_failure:
  assumes "\<not> single_flat_source (map Some (pre @ e # post))"
    and "\<forall>p\<in>set pre. 2 \<le> length (SourceCode p)"
    and "decode_fails Unmarshal e"
  shows "parseContractCode Unmarshal (map Some (pre @ e # post)) =
     Return ([\<lparr>Language = [],
                Sources = [''main.sol'' \<mapsto> Some \<lparr>Content = SourceCode (hd (pre @ [e]))\<rparr>],
                Settings = zero_Settings\<rparr>], None)"
proof -
  have "parseContractCode Unmarshal (map Some (pre @ e # post)) =
      parse_loop Unmarshal (map Some (pre @ e # post)) (map Some (pre @ e # post)) []"
    using assms(1) by (rule not_single_loop_Some)
  also have "\<dots> = one_main_sol (map Some (pre @ e # post))"
    using loop_fallback [OF assms(2,3), of "map Some (pre @ e # post)" "map Some post" "[]"]
    by simp
  also have "\<dots> = Return ([main_sol (SourceCode (hd (pre @ [e])))], None)"
    by (cases pre) (simp_all add: one_main_sol_def)
  finally show ?thesis by (simp add: main_sol_eq)
qed

theorem fallback_on_decode_failure_witness:
  "\<not> single_flat_source (map Some
       ([entry ''{{\"sources\":{\"A.sol\":{\"content\":\"pragma solidity ^0.8.0;\"}}}}'']
          @ entry ''{bad}'' # [])) \<and>
   2 \<le> length (SourceCode
       (entry ''{{\"sources\":{\"A.sol\":{\"content\":\"pragma solidity ^0.8.0;\"}}}}'')) \<and>
   decodes_to Unmarshal_SourceCode
       (entry ''{{\"sources\":{\"A.sol\":{\"content\":\"pragma solidity ^0.8.0;\"}}}}'') doc_A \<and>
   decode_fails Unmarshal_SourceCode (entry ''{bad}'') \<and>
   parseContractCode Unmarshal_SourceCode (map Some
       ([entry ''{{\"sources\":{\"A.sol\":{\"content\":\"pragma solidity ^0.8.0;\"}}}}'']
          @ entry ''{bad}'' # [])) =
     Return ([\<lparr>Language = [],
                Sources = [''main.sol'' \<mapsto> Some \<lparr>Content =
                  ''{{\"sources\":{\"A.sol\":{\"content\":\"pragma solidity ^0.8.0;\"}}}}''\<rparr>],
                Settings = zero_Settings\<rparr>], None)"
proof -
  let ?a = "entry ''{{\"sources\":{\"A.sol\":{\"content\":\"pragma solidity ^0.8.0;\"}}}}''"
  have h1: "\<not> single_flat_source (map Some ([?a] @ entry ''{bad}'' # []))"
    by (simp add: single_flat_source_def)
  have h2: "\<forall>p\<in>set [?a]. 2 \<le> length (SourceCode p)" by simp
  from fallback_on_decode_failure [OF h1 h2 fails_bad] h1 h2 fails_bad decodes_A
  show ?thesis by simp
qed

subsection \<open>C5: a body that is not an envelope\<close>

text \<open>
  C5. When the request gives a body \<open>bs\<close> and decoding \<open>bs\<close> into the \<open>Response\<close> returns an
  error, \<open>getRawContractCode\<close> returns a nil error and exactly one entry, whose
  \<open>SourceCode\<close> is \<open>bs\<close> as it is and whose flag \<open>IsOneSource\<close> is set.
\<close>

theorem fetch_falls_back_to_flat_entry:
  assumes "Get (getContractURL endpoint address apiKey) = Inr (Inr bs)"
    and "snd (Decode bs) \<noteq> None"
  shows "getRawContractCode Get Decode endpoint address apiKey =
     ([Some (zero_RawCode\<lparr>SourceCode := bs, IsOneSource := True\<rparr>)], None)"
  using assms by (auto simp: getRawContractCode_def split: prod.splits option.splits)

theorem fetch_falls_back_to_flat_entry_witness:
  "snd (Decode_Response ''pragma solidity ^0.8.0;'') = Some SyntaxError \<and>
   getRawContractCode (\<lambda>url. Inr (Inr ''pragma solidity ^0.8.0;'')) Decode_Response
       ''https://api.etherscan.io'' ''0x00'' ''KEY'' =
     ([Some (zero_RawCode\<lparr>SourceCode := ''pragma solidity ^0.8.0;'', IsOneSource := True\<rparr>)],
      None)"
proof -
  have h: "snd (Decode_Response ''pragma solidity ^0.8.0;'') = Some SyntaxError"
    by (simp add: Decode_Response_def json_plain)
  then have h': "snd (Decode_Response ''pragma solidity ^0.8.0;'') \<noteq> None" by simp
  from fetch_falls_back_to_flat_entry
    [where Get = "\<lambda>url. Inr (Inr ''pragma solidity ^0.8.0;'')"
       and bs = "''pragma solidity ^0.8.0;''" and Decode = Decode_Response
       and endpoint = "''https://api.etherscan.io''" and address = "''0x00''"
       and apiKey = "''KEY''"] h h'
  show ?thesis by simp
qed

subsection \<open>C6: a status other than 1\<close>

text \<open>
  C6. When the request gives a body that decodes into a \<open>Response\<close> without error and the
  \<open>Status\<close> is not \<open>1\<close>, \<open>getRawContractCode\<close> returns an error. Its text is built by
  \<open>fmt.Errorf("bad status: %s, message: %s", Status, Status)\<close>: the status stands in both
  places, and the \<open>Message\<close> of the response is not part of the text. The run below is
  the explorer's answer \<open>{"status":"0","message":"NOTOK","result":[]}\<close>, where the text is
  \<open>bad status: 0, message: 0\<close>.
\<close>

theorem bad_status_error_text:
  assumes "Get (getContractURL endpoint address apiKey) = Inr (Inr bs)"
    and "Decode bs = (response, None)"
    and "Status response \<noteq> ''1''"
  shows "getRawContractCode Get Decode endpoint address apiKey =
     ([], Some (Errorf (''bad status: '' @ Status response @ '', message: ''
                          @ Status response)))"
  using assms by (simp add: getRawContractCode_def)

theorem bad_status_error_text_witness:
  "Decode_Response ''{\"status\":\"0\",\"message\":\"NOTOK\",\"result\":[]}'' =
     (\<lparr>Status = ''0'', Message = ''NOTOK'', Codes = []\<rparr>, None) \<and>
   getRawContractCode (\<lambda>url. Inr (Inr ''{\"status\":\"0\",\"message\":\"NOTOK\",\"result\":[]}''))
       Decode_Response ''https://api.etherscan.io'' ''0x00'' ''KEY'' =
     ([], Some (Errorf ''bad status: 0, message: 0''))"
proof -
  from bad_status_error_text
    [where Get = "\<lambda>url. Inr (Inr ''{\"status\":\"0\",\"message\":\"NOTOK\",\"result\":[]}'')"
       and bs = "''{\"status\":\"0\",\"message\":\"NOTOK\",\"result\":[]}''"
       and Decode = Decode_Response
       and response = "\<lparr>Status = ''0'', Message = ''NOTOK'', Codes = []\<rparr>"
       and endpoint = "''https://api.etherscan.io''" and address = "''0x00''"
       and apiKey = "''KEY''"] Decode_status0
  show ?thesis by simp
qed

subsection \<open>C7: the number of bundles\<close>

text \<open>
  C7, as stated, says that \<open>parseContractCode\<close> returns as many bundles as it is given
  entries. It does not hold: when the inner decode of an entry fails, the early return
  gives one bundle for the whole slice. Here two entries give one bundle.
\<close>

theorem bundle_count_counterexample:
  "parseContractCode Unmarshal_SourceCode
       [Some (entry ''{bad}''),
        Some (entry ''{{\"sources\":{\"A.sol\":{\"content\":\"pragma solidity ^0.8.0;\"}}}}'')] =
     Return ([\<lparr>Language = [], Sources = [''main.sol'' \<mapsto> Some \<lparr>Content = ''{bad}''\<rparr>],
                Settings = zero_Settings\<rparr>], None) \<and>
   length [\<lparr>Language = [], Sources = [''main.sol'' \<mapsto> Some \<lparr>Content = ''{bad}''\<rparr>],
             Settings = zero_Settings\<rparr>] \<noteq>
   length [Some (entry ''{bad}''),
        Some (entry ''{{\"sources\":{\"A.sol\":{\"content\":\"pragma solidity ^0.8.0;\"}}}}'')]"
  by (simp add: parseContractCode_def inner_bad Unmarshal_bad one_main_sol_def main_sol_eq)

text \<open>
  C7, amended. When \<open>parseContractCode\<close> returns, the number of bundles is the number of
  entries, except when the slice does not take the special case and the inner decode of
  one of its entries fails: then it is one.
\<close>

theorem bundle_count:
  assumes "parseContractCode Unmarshal rawCodes = Return (sourceCodes, err)"
  shows "length sourceCodes =
     (if \<not> single_flat_source rawCodes \<and>
         (\<exists>rawCode. Some rawCode \<in> set rawCodes \<and> decode_fails Unmarshal rawCode)
      then 1 else length rawCodes)"
proof -
  from parse_Return [OF assms] consider
      (special) "single_flat_source rawCodes" "one_main_sol rawCodes = Return (sourceCodes, err)"
    | (each) "\<not> single_flat_source rawCodes"
        "list_all2 (\<lambda>rc sc. \<exists>e. rc = Some e \<and> decodes_to Unmarshal e sc) rawCodes sourceCodes"
    | (early) "\<not> single_flat_source rawCodes" "one_main_sol rawCodes = Return (sourceCodes, err)"
        "\<exists>e. Some e \<in> set rawCodes \<and> decode_fails Unmarshal e"
    by auto
  then show ?thesis
  proof cases
    case special
    from single_flat_source_D [OF special(1)] one_main_sol_Return [OF special(2)] special(1)
    show ?thesis by auto
  next
    case each
    have "\<not> decode_fails Unmarshal e" if "Some e \<in> set rawCodes" for e
    proof -
      from that obtain i where "i < length rawCodes" "rawCodes ! i = Some e"
        by (auto simp: in_set_conv_nth)
      with each(2) have "decodes_to Unmarshal e (sourceCodes ! i)"
        by (auto simp: list_all2_conv_all_nth)
      then show ?thesis by (rule decodes_not_fails)
    qed
    with each show ?thesis by (auto dest: list_all2_lengthD)
  next
    case early
    from one_main_sol_Return [OF early(2)] early(1,3) show ?thesis by auto
  qed
qed

theorem bundle_count_witness:
  "parseContractCode Unmarshal_SourceCode
       [Some (entry ''{{\"sources\":{\"A.sol\":{\"content\":\"pragma solidity ^0.8.0;\"}}}}''),
        Some (entry ''{{\"language\":\"Solidity\",\"sources\":{\"B.sol\":{\"content\":\"contract B {}\"}}}}'')] =
     Return ([doc_A, doc_B], None) \<and>
   \<not> decode_fails Unmarshal_SourceCode
       (entry ''{{\"sources\":{\"A.sol\":{\"content\":\"pragma solidity ^0.8.0;\"}}}}'') \<and>
   \<not> decode_fails Unmarshal_SourceCode
       (entry ''{{\"language\":\"Solidity\",\"sources\":{\"B.sol\":{\"content\":\"contract B {}\"}}}}'') \<and>
   length [doc_A, doc_B] = (2::nat)"
proof -
  have h: "parseContractCode Unmarshal_SourceCode
       [Some (entry ''{{\"sources\":{\"A.sol\":{\"content\":\"pragma solidity ^0.8.0;\"}}}}''),
        Some (entry ''{{\"language\":\"Solidity\",\"sources\":{\"B.sol\":{\"content\":\"contract B {}\"}}}}'')] =
     Return ([doc_A, doc_B], None)"
    by (simp add: parseContractCode_def inner_A inner_B Unmarshal_doc_A Unmarshal_doc_B)
  from bundle_count [OF h] h decodes_not_fails [OF decodes_A] decodes_not_fails [OF decodes_B]
  show ?thesis by simp
qed

subsection \<open>C8: bundles without a source\<close>

text \<open>
  C8, as stated, says that every bundle returned has at least one entry in its \<open>Sources\<close>.
  It does not hold: a bundle of the loop is the decoded document, and a document with no
  \<open>sources\<close> member decodes without error. Here the entry is \<open>{{}}\<close>, its inner document is
  \<open>{}\<close>, and the bundle returned has the empty map.
\<close>

theorem bundle_sources_counterexample:
  "parseContractCode Unmarshal_SourceCode [Some (entry ''{{}}'')] =
     Return ([\<lparr>Language = [], Sources = Map.empty, Settings = zero_Settings\<rparr>], None) \<and>
   dom (Sources \<lparr>Language = [], Sources = Map.empty, Settings = zero_Settings\<rparr>) = {}"
  by (simp add: parseContractCode_def inner_braces Unmarshal_empty_object zero_SourceCode_def)

text \<open>
  C8, amended. Every bundle \<open>parseContractCode\<close> returns either has exactly the key
  \<open>main.sol\<close> in its \<open>Sources\<close> (the bundles of the special case and of the early return), or
  is the document the inner decode of one of the entries left, with whatever \<open>Sources\<close>
  that document has.
\<close>

theorem bundle_sources:
  assumes "parseContractCode Unmarshal rawCodes = Return (sourceCodes, err)"
    and "sourceCode \<in> set sourceCodes"
  shows "dom (Sources sourceCode) = {''main.sol''} \<or>
         (\<exists>rawCode. Some rawCode \<in> set rawCodes \<and> decodes_to Unmarshal rawCode sourceCode)"
proof -
  from parse_Return [OF assms(1)] consider
      (fixed) "one_main_sol rawCodes = Return (sourceCodes, err)"
    | (each) "list_all2 (\<lambda>rc sc. \<exists>e. rc = Some e \<and> decodes_to Unmarshal e sc) rawCodes sourceCodes"
    by auto
  then show ?thesis
  proof cases
    case fixed
    from one_main_sol_Return [OF fixed] obtain r0 rest
      where "rawCodes = Some r0 # rest" "(sourceCodes, err) = ([main_sol (SourceCode r0)], None)"
      by blast
    with assms(2) have "sourceCode = main_sol (SourceCode r0)" by simp
    then show ?thesis by (simp add: dom_main_sol)
  next
    case each
    from assms(2) obtain i where i: "i < length sourceCodes" "sourceCodes ! i = sourceCode"
      by (auto simp: in_set_conv_nth)
    with each have "i < length rawCodes"
      "\<exists>e. rawCodes ! i = Some e \<and> decodes_to Unmarshal e sourceCode"
      by (auto simp: list_all2_conv_all_nth)
    then show ?thesis by (metis nth_mem)
  qed
qed

theorem bundle_sources_witness:
  "parseContractCode Unmarshal_SourceCode
       [Some (entry ''{bad}''), Some (entry ''{{}}'')] =
     Return ([main_sol ''{bad}''], None) \<and>
   main_sol ''{bad}'' \<in> set [main_sol ''{bad}''] \<and>
   (dom (Sources (main_sol ''{bad}'')) = {''main.sol''} \<or>
    (\<exists>rawCode. Some rawCode \<in> set [Some (entry ''{bad}''), Some (entry ''{{}}'')] \<and>
       decodes_to Unmarshal_SourceCode rawCode (main_sol ''{bad}'')))"
proof -
  have h: "parseContractCode Unmarshal_SourceCode
       [Some (entry ''{bad}''), Some (entry ''{{}}'')] = Return ([main_sol ''{bad}''], None)"
    by (simp add: parseContractCode_def inner_bad Unmarshal_bad one_main_sol_def)
  have m: "main_sol ''{bad}'' \<in> set [main_sol ''{bad}'']" by simp
  from bundle_sources [OF h m] h m show ?thesis by (intro conjI)
qed

subsection \<open>C9: entries too short to strip\<close>

text \<open>
  C9, as stated, says that a slice not taking the special case that holds an entry of
  fewer than two bytes makes \<open>parseContractCode\<close> panic. It does not hold: the loop returns
  at the first entry whose inner decode fails and never slices the entries after it.
  Here the second entry is the empty string and the call returns the fallback bundle.
\<close>

theorem short_entry_counterexample:
  "\<not> single_flat_source (map Some [entry ''{bad}'', entry '''']) \<and>
   length (SourceCode (entry '''')) < 2 \<and>
   parseContractCode Unmarshal_SourceCode (map Some [entry ''{bad}'', entry '''']) =
     Return ([\<lparr>Language = [], Sources = [''main.sol'' \<mapsto> Some \<lparr>Content = ''{bad}''\<rparr>],
                Settings = zero_Settings\<rparr>], None)"
  by (simp add: single_flat_source_def parseContractCode_def inner_bad Unmarshal_bad
      one_main_sol_def main_sol_eq)

text \<open>
  C9, amended. For a slice of entries that does not take the special case,
  \<open>parseContractCode\<close> panics exactly when the loop reaches an entry of fewer than two
  bytes, that is, when such an entry stands behind entries whose inner decode all
  succeed; the panic is then that of the slice expression. In every other case the call
  returns.
\<close>

theorem panics_iff_short_entry_reached:
  assumes "\<not> single_flat_source (map Some es)"
  shows "if \<exists>pre e post. es = pre @ e # post \<and>
              (\<forall>p\<in>set pre. \<exists>sourceCode. decodes_to Unmarshal p sourceCode) \<and>
              length (SourceCode e) < 2
         then parseContractCode Unmarshal (map Some es) = Panic SliceBoundsOutOfRange
         else \<exists>r. parseContractCode Unmarshal (map Some es) = Return r"
proof (cases "\<exists>pre e post. es = pre @ e # post \<and>
    (\<forall>p\<in>set pre. \<exists>sourceCode. decodes_to Unmarshal p sourceCode) \<and> length (SourceCode e) < 2")
  case True
  then obtain pre e post where s: "es = pre @ e # post"
    "\<forall>p\<in>set pre. \<exists>sourceCode. decodes_to Unmarshal p sourceCode" "length (SourceCode e) < 2"
    by blast
  have "parse_loop Unmarshal (map Some es) (map Some pre @ Some e # map Some post) [] =
      Panic SliceBoundsOutOfRange"
    using s(2,3) by (rule loop_panic)
  with s(1) have "parse_loop Unmarshal (map Some es) (map Some es) [] =
      Panic SliceBoundsOutOfRange" by simp
  with not_single_loop_Some [OF assms, of Unmarshal]
  have "parseContractCode Unmarshal (map Some es) = Panic SliceBoundsOutOfRange" by simp
  with True show ?thesis by (simp only: if_True)
next
  case False
  have "\<exists>r. parse_loop Unmarshal (map Some es) (map Some es) [] = Return r"
  proof (cases "parse_loop Unmarshal (map Some es) (map Some es) []")
    case (Panic p)
    from loop_Panic [OF this] False have "one_main_sol (map Some es) = Panic p" by blast
    moreover from Panic have "es \<noteq> []" by auto
    ultimately show ?thesis by (cases es) (simp_all add: one_main_sol_def)
  next
    case (Return r)
    then show ?thesis by simp
  qed
  with not_single_loop_Some [OF assms, of Unmarshal]
  have "\<exists>r. parseContractCode Unmarshal (map Some es) = Return r" by simp
  with False show ?thesis by (simp only: if_False)
qed

theorem panics_iff_short_entry_reached_witness:
  "\<not> single_flat_source (map Some
       [entry ''{{\"sources\":{\"A.sol\":{\"content\":\"pragma solidity ^0.8.0;\"}}}}'', entry ''z'']) \<and>
   decodes_to Unmarshal_SourceCode
       (entry ''{{\"sources\":{\"A.sol\":{\"content\":\"pragma solidity ^0.8.0;\"}}}}'') doc_A \<and>
   length (SourceCode (entry ''z'')) < 2 \<and>
   parseContractCode Unmarshal_SourceCode (map Some
       [entry ''{{\"sources\":{\"A.sol\":{\"content\":\"pragma solidity ^0.8.0;\"}}}}'', entry ''z''])
     = Panic SliceBoundsOutOfRange"
proof -
  let ?a = "entry ''{{\"sources\":{\"A.sol\":{\"content\":\"pragma solidity ^0.8.0;\"}}}}''"
  have h: "\<not> single_flat_source (map Some [?a, entry ''z''])"
    by (simp add: single_flat_source_def)
  have "[?a, entry ''z''] = [?a] @ entry ''z'' # [] \<and>
      (\<forall>p\<in>set [?a]. \<exists>sourceCode. decodes_to Unmarshal_SourceCode p sourceCode) \<and>
      length (SourceCode (entry ''z'')) < 2"
    using decodes_A by auto
  then have ex: "\<exists>pre e post. [?a, entry ''z''] = pre @ e # post \<and>
      (\<forall>p\<in>set pre. \<exists>sourceCode. decodes_to Unmarshal_SourceCode p sourceCode) \<and>
      length (SourceCode e) < 2"
    by blast
  from panics_iff_short_entry_reached [OF h, of Unmarshal_SourceCode] ex
  have "parseContractCode Unmarshal_SourceCode (map Some [?a, entry ''z'']) =
      Panic SliceBoundsOutOfRange"
    by (simp only: if_True)
  with h decodes_A show ?thesis by simp
qed

subsection \<open>C10: the error is always nil\<close>

text \<open>
  C10. On every slice, nil pointers included, \<open>parseContractCode\<close> either panics or returns
  a nil error: no input makes it return an error.
\<close>

theorem error_is_always_nil:
  "(\<exists>p. parseContractCode Unmarshal rawCodes = Panic p) \<or>
   (\<exists>sourceCodes. parseContractCode Unmarshal rawCodes = Return (sourceCodes, None))"
proof (cases "parseContractCode Unmarshal rawCodes")
  case (Panic p)
  then show ?thesis by simp
next
  case (Return r)
  from parse_Return [OF this] have "snd r = None"
    by (auto dest: one_main_sol_Return)
  with Return show ?thesis by (cases r) simp
qed

end
